theory Spec2Isabelle
  imports Main
begin

section \<open>The rule \<open>check-tag-names\<close> of \<open>src/rules/checkTagNames.js\<close>\<close>

text \<open>
  A shallow embedding of the callback that \<open>checkTagNames.js\<close> hands to
  \<open>iterateJsdoc\<close>. JavaScript strings are \<open>string\<close>s whose characters stand for
  code units below 256; a thrown \<open>TypeError\<close> is the left summand of a sum type;
  the diagnostics that the callback hands to \<open>report\<close>, \<open>utils.reportJSDoc\<close> and
  \<open>utils.reportSettings\<close> are returned as lists, in the order of the calls.
\<close>

subsection \<open>The fixed sets of tag names (lines 5 to 57)\<close>

definition jsxTagNames :: "string set" where
  "jsxTagNames = {''jsx'', ''jsxFrag'', ''jsxImportSource'', ''jsxRuntime''}"

definition typedTagsAlwaysUnnecessary :: "string set" where
  "typedTagsAlwaysUnnecessary =
     {''augments'', ''callback'', ''class'', ''enum'', ''implements'', ''private'',
      ''property'', ''protected'', ''public'', ''readonly'', ''this'', ''type'',
      ''typedef''}"

definition typedTagsUnnecessaryOutsideDeclare :: "string set" where
  "typedTagsUnnecessaryOutsideDeclare =
     {''abstract'', ''access'', ''class'', ''constant'', ''constructs'', ''default'',
      ''enum'', ''export'', ''exports'', ''function'', ''global'', ''inherits'',
      ''instance'', ''interface'', ''member'', ''memberof'', ''memberOf'', ''method'',
      ''mixes'', ''mixin'', ''module'', ''name'', ''namespace'', ''override'',
      ''property'', ''requires'', ''static'', ''this''}"

subsection \<open>Data\<close>

datatype error = TypeError

text \<open>
  A syntax node, as far as the rule reads it: its \<open>type\<close>, the truthiness of its
  \<open>declare\<close> property (\<open>declared\<close>), and its \<open>parent\<close>, which is \<open>None\<close> when the property is
  \<open>null\<close> or \<open>undefined\<close>. The annotated node itself is a \<open>node option\<close> for the
  same reason.
\<close>

datatype node = Node (ntype: string) (declared: bool) (parent: "node option")

text \<open>
  A tag of the parsed comment: \<open>tag\<close> is the tag name (without the \<open>@\<close>),
  \<open>name\<close> the name-path that follows it, \<open>description\<close> the free text.
\<close>

record jsdocTag =
  tag :: string
  name :: string
  description :: string

text \<open>
  The object literal handed to \<open>utils.changeTag\<close>: for each token it can name,
  \<open>Some s\<close> when the literal sets the token to \<open>s\<close>, \<open>None\<close> when the literal has
  no such key.
\<close>

record tagChanges =
  set_postType :: "string option"
  set_type :: "string option"
  set_postTag :: "string option"
  set_tag :: "string option"

text \<open>What a fixer does when it runs.\<close>

datatype fixer =
    NoFixer
      \<comment> \<open>\<open>report(message, null, jsdocTag)\<close>\<close>
  | ChangeTag jsdocTag tagChanges
      \<comment> \<open>\<open>utils.changeTag(jsdocTag, changes)\<close>\<close>
  | RemoveTag nat bool
      \<comment> \<open>\<open>utils.removeTag(tagIndex, {removeEmptyBlock})\<close>\<close>
  | ReplaceText string
      \<comment> \<open>\<open>fixer.replaceText(jsdocNode, replacement)\<close>\<close>

record report =
  message :: string
  fixer :: fixer
  reportedTag :: jsdocTag

text \<open>
  A value of \<open>settings.tagNamePreference\<close>, and what \<open>utils.getPreferredTagName\<close>
  returns with \<open>allowObjectReturn\<close>: a falsy value that is not a string
  (\<open>false\<close>, \<open>null\<close>, \<open>undefined\<close>), a string, an object with its \<open>message\<close>
  (a string when present) and its \<open>replacement\<close> (\<open>undefined\<close>, \<open>false\<close> or a
  string), or a truthy value that is none of these, given by its string conversion.
\<close>

datatype replacement = NoReplacement | FalseReplacement | Replacement string

datatype preference =
    Falsy
  | Name string
  | Object "string option" replacement
  | Other string

record options =
  definedTags :: "string list"
  jsxTags :: bool
  typed :: bool

text \<open>
  \<open>settings.tagNamePreference\<close> is an object: its keys with their values, in the
  order of \<open>Object.keys\<close>. Of \<open>settings.structuredTags\<close> only the keys are read.
\<close>

record settings =
  tagNamePreference :: "(string \<times> preference) list"
  structuredTags :: "string list"

text \<open>
  The two functions of \<open>utils\<close> whose results decide the control flow are defined in
  \<open>iterateJsdoc.js\<close>, which is not part of the source at hand; the callback is
  modelled for arbitrary ones. \<open>getPreferredTagName\<close> takes the \<open>defaultMessage\<close>
  and the \<open>tagName\<close> and may report on its own.
\<close>

record utils =
  isValidTag :: "string \<Rightarrow> string list \<Rightarrow> bool"
  getPreferredTagName :: "string \<Rightarrow> string \<Rightarrow> report list \<times> preference"

text \<open>
  The destructured argument of the callback: \<open>sourceText\<close> is
  \<open>sourceCode.getText(jsdocNode)\<close>, \<open>jsdoc\<close> is \<open>jsdoc.tags\<close>, \<open>filename\<close> is
  \<open>context.getFilename()\<close>, \<open>opts\<close> is \<open>context.options[0] || {}\<close>.
\<close>

record params =
  sourceText :: string
  jsdoc :: "jsdocTag list"
  utilities :: utils
  filename :: string
  opts :: options
  annotated :: "node option"
  config :: settings

subsection \<open>Strings\<close>

definition endsWith :: "string \<Rightarrow> string \<Rightarrow> bool" where
  "endsWith s suffix =
     (length suffix \<le> length s \<and> drop (length s - length suffix) s = suffix)"

text \<open>
  The white space and line terminators of \<open>String.prototype.trim\<close> below code
  unit 256: tab, line feed, vertical tab, form feed, carriage return, space and
  the no-break space.
\<close>

definition isWhiteSpace :: "char \<Rightarrow> bool" where
  "isWhiteSpace c = (of_char c \<in> {9, 10, 11, 12, 13, 32, 160 :: nat})"

definition trim :: "string \<Rightarrow> string" where
  "trim s = rev (dropWhile isWhiteSpace (rev (dropWhile isWhiteSpace s)))"

subsection \<open>The ambient context (lines 106 to 110)\<close>

fun isInAmbientContext :: "string \<Rightarrow> node option \<Rightarrow> error + bool" where
  "isInAmbientContext file None = Inl TypeError"
| "isInAmbientContext file (Some (Node ty decl par)) =
     (if ty = ''Program'' then Inr (endsWith file ''.d.ts'')
      else if decl then Inr True
      else isInAmbientContext file par)"

subsection \<open>Redundancy outside of ambient contexts (lines 112 to 130)\<close>

text \<open>
  The expression \<open>node.parent.type === 'Program'\<close>: reading \<open>parent\<close> of a missing
  node, or \<open>type\<close> of a missing parent, throws.
\<close>

definition parentIsProgram :: "node option \<Rightarrow> error + bool" where
  "parentIsProgram n =
     (case n of
        None \<Rightarrow> Inl TypeError
      | Some m \<Rightarrow>
          (case parent m of
             None \<Rightarrow> Inl TypeError
           | Some q \<Rightarrow> Inr (ntype q = ''Program'')))"

definition tagIsRedundantWhenTyped :: "params \<Rightarrow> jsdocTag \<Rightarrow> error + bool" where
  "tagIsRedundantWhenTyped p jsdocTag =
     (if tag jsdocTag \<notin> typedTagsUnnecessaryOutsideDeclare then Inr False
      else if name jsdocTag = ''default'' then Inr False
      else
        (case (if endsWith (filename p) ''.d.ts'' then parentIsProgram (annotated p)
               else Inr False) of
           Inl e \<Rightarrow> Inl e
         | Inr True \<Rightarrow> Inr False
         | Inr False \<Rightarrow>
            (case isInAmbientContext (filename p) (annotated p) of
               Inl e \<Rightarrow> Inl e
             | Inr True \<Rightarrow> Inr False
             | Inr False \<Rightarrow> Inr True)))"

subsection \<open>Reporting with the fixer that removes the type (lines 132 to 146)\<close>

text \<open>
  The object spread \<open>{postType: '', type: '', ...additionalTagChanges}\<close>: a key of
  the second object overrides the same key of the first; spreading \<open>undefined\<close>
  (\<open>None\<close>, the argument left out) adds nothing.
\<close>

definition spread :: "tagChanges \<Rightarrow> tagChanges option \<Rightarrow> tagChanges" where
  "spread base additional =
     (case additional of
        None \<Rightarrow> base
      | Some a \<Rightarrow>
          \<lparr>set_postType = (case set_postType a of None \<Rightarrow> set_postType base | Some v \<Rightarrow> Some v),
           set_type = (case set_type a of None \<Rightarrow> set_type base | Some v \<Rightarrow> Some v),
           set_postTag = (case set_postTag a of None \<Rightarrow> set_postTag base | Some v \<Rightarrow> Some v),
           set_tag = (case set_tag a of None \<Rightarrow> set_tag base | Some v \<Rightarrow> Some v)\<rparr>)"

definition reportWithTypeRemovalFixer ::
  "string \<Rightarrow> jsdocTag \<Rightarrow> nat \<Rightarrow> tagChanges option \<Rightarrow> report" where
  "reportWithTypeRemovalFixer msg jsdocTag tagIndex additionalTagChanges =
     \<lparr>message = msg,
      fixer =
        (if trim (description jsdocTag) \<noteq> []
         then ChangeTag jsdocTag
                (spread \<lparr>set_postType = Some [], set_type = Some [],
                         set_postTag = None, set_tag = None\<rparr>
                   additionalTagChanges)
         else RemoveTag tagIndex True),
      reportedTag = jsdocTag\<rparr>"

subsection \<open>The check of typed mode (lines 148 to 168)\<close>

definition alwaysMessage :: "string \<Rightarrow> string" where
  "alwaysMessage tagName =
     [CHR 0x27, CHR ''@''] @ tagName @ [CHR 0x27] @
     '' is redundant when using a type system.''"

definition ambientMessage :: "string \<Rightarrow> string" where
  "ambientMessage tagName =
     [CHR 0x27, CHR ''@''] @ tagName @ [CHR 0x27] @
     '' is redundant outside of ambient ('' @ [CHR 0x60] @ ''declare'' @
     [CHR 0x60, CHR ''/'', CHR 0x60] @ ''.d.ts'' @ [CHR 0x60] @
     '') contexts when using a type system.''"

definition templateMessage :: string where
  "templateMessage =
     [CHR 0x27] @ ''@template'' @ [CHR 0x27] @
     '' without a name is redundant when using a type system.''"

text \<open>The result is the returned boolean with the reports made on the way.\<close>

definition checkTagForTypedValidity ::
  "params \<Rightarrow> jsdocTag \<Rightarrow> nat \<Rightarrow> error + (bool \<times> report list)" where
  "checkTagForTypedValidity p jsdocTag tagIndex =
     (if tag jsdocTag \<in> typedTagsAlwaysUnnecessary
      then Inr (True,
             [reportWithTypeRemovalFixer (alwaysMessage (tag jsdocTag)) jsdocTag tagIndex
                (Some \<lparr>set_postType = None, set_type = None,
                        set_postTag = Some [], set_tag = Some []\<rparr>)])
      else
        (case tagIsRedundantWhenTyped p jsdocTag of
           Inl e \<Rightarrow> Inl e
         | Inr True \<Rightarrow>
             Inr (True,
               [reportWithTypeRemovalFixer (ambientMessage (tag jsdocTag)) jsdocTag tagIndex
                  None])
         | Inr False \<Rightarrow>
             (if tag jsdocTag = ''template'' \<and> name jsdocTag = []
              then Inr (True,
                     [reportWithTypeRemovalFixer templateMessage jsdocTag tagIndex None])
              else Inr (False, []))))"

subsection \<open>The replacement of the tag name (lines 208 to 211)\<close>

text \<open>
  \<open>new RegExp(`@${escapeStringRegexp(tagName)}\\b`, 'u')\<close> matches the characters
  of \<open>@tagName\<close> as they are (the escaping takes their meaning in a pattern away)
  where a word boundary follows. \<open>\b\<close> holds between two characters of which just
  one is a word character, \<open>[A-Za-z0-9_]\<close>; the end of the text is no word
  character.
\<close>

definition isWordChar :: "char \<Rightarrow> bool" where
  "isWordChar c =
     (let n = (of_char c :: nat)
      in (48 \<le> n \<and> n \<le> 57) \<or> (65 \<le> n \<and> n \<le> 90) \<or> n = 95 \<or> (97 \<le> n \<and> n \<le> 122))"

definition matchesAt :: "string \<Rightarrow> string \<Rightarrow> bool" where
  "matchesAt tagName s =
     (let pat = CHR ''@'' # tagName
      in take (length pat) s = pat \<and>
         isWordChar (last pat) \<noteq>
           (case drop (length pat) s of [] \<Rightarrow> False | c # _ \<Rightarrow> isWordChar c))"

text \<open>
  The leftmost match in \<open>s\<close>, as the text before it (\<open>preceding\<close> holds what has been
  passed over) and the text after it.
\<close>

fun firstMatch :: "string \<Rightarrow> string \<Rightarrow> string \<Rightarrow> (string \<times> string) option" where
  "firstMatch tagName preceding [] = None"
| "firstMatch tagName preceding (c # cs) =
     (if matchesAt tagName (c # cs)
      then Some (preceding, drop (length tagName) cs)
      else firstMatch tagName (preceding @ [c]) cs)"

text \<open>
  \<open>String.prototype.replace\<close> with a string as the replacement expands the
  patterns of that string: \<open>$$\<close> is a dollar sign, \<open>$&\<close> the matched text,
  \<open>$`\<close> the text before the match, \<open>$'\<close> the text after it. The regular
  expression has no capture group, so \<open>$1\<close> and the like stay as they are.
\<close>

fun getSubstitution :: "string \<Rightarrow> string \<Rightarrow> string \<Rightarrow> string \<Rightarrow> string" where
  "getSubstitution matched preceding following [] = []"
| "getSubstitution matched preceding following [c] = [c]"
| "getSubstitution matched preceding following (c # d # r) =
     (if c = CHR ''$'' \<and> d = CHR ''$'' then CHR ''$'' # getSubstitution matched preceding following r
      else if c = CHR ''$'' \<and> d = CHR ''&'' then matched @ getSubstitution matched preceding following r
      else if c = CHR ''$'' \<and> d = CHR 0x60 then preceding @ getSubstitution matched preceding following r
      else if c = CHR ''$'' \<and> d = CHR 0x27 then following @ getSubstitution matched preceding following r
      else c # getSubstitution matched preceding following (d # r))"

definition replaceTagName :: "string \<Rightarrow> string \<Rightarrow> string \<Rightarrow> string" where
  "replaceTagName text tagName preferredTagName =
     (case firstMatch tagName [] text of
        None \<Rightarrow> text
      | Some (preceding, following) \<Rightarrow>
          preceding @
          getSubstitution (CHR ''@'' # tagName) preceding following (CHR ''@'' # preferredTagName) @
          following)"

subsection \<open>The tag names that the settings define (lines 75 to 104)\<close>

definition settingsMessage :: string where
  "settingsMessage =
     ''Invalid '' @ [CHR 0x60] @ ''settings.jsdoc.tagNamePreference'' @ [CHR 0x60] @
     ''. Values must be falsy, a string, or an object.''"

text \<open>
  The function mapped over \<open>Object.values(tagNamePreference)\<close>: the calls of
  \<open>utils.reportSettings\<close> and the value returned (\<open>replacement\<close> of a value that
  is no object is \<open>undefined\<close>).
\<close>

fun preferredTagOf :: "preference \<Rightarrow> string list \<times> replacement" where
  "preferredTagOf (Name s) = ([], Replacement s)"
| "preferredTagOf Falsy = ([], NoReplacement)"
| "preferredTagOf (Other s) = ([settingsMessage], NoReplacement)"
| "preferredTagOf (Object m r) = ([], r)"

fun truthyReplacement :: "replacement \<Rightarrow> bool" where
  "truthyReplacement (Replacement s) = (s \<noteq> [])"
| "truthyReplacement NoReplacement = False"
| "truthyReplacement FalseReplacement = False"

fun replacementText :: "replacement \<Rightarrow> string" where
  "replacementText (Replacement s) = s"
| "replacementText NoReplacement = ''undefined''"
| "replacementText FalseReplacement = ''false''"

definition definedNonPreferredTags :: "settings \<Rightarrow> string list" where
  "definedNonPreferredTags st = map fst (tagNamePreference st)"

definition definedStructuredTags :: "settings \<Rightarrow> string list" where
  "definedStructuredTags st = structuredTags st"

definition settingsReports :: "settings \<Rightarrow> string list" where
  "settingsReports st =
     (if definedNonPreferredTags st \<noteq> []
      then concat (map (\<lambda>v. fst (preferredTagOf v)) (map snd (tagNamePreference st)))
      else [])"

definition definedPreferredTags :: "settings \<Rightarrow> string list" where
  "definedPreferredTags st =
     (if definedNonPreferredTags st \<noteq> []
      then map replacementText
             (filter truthyReplacement
                (map (\<lambda>v. snd (preferredTagOf v)) (map snd (tagNamePreference st))))
      else [])"

subsection \<open>The loop over the tags (lines 170 to 219)\<close>

fun truthy :: "preference \<Rightarrow> bool" where
  "truthy Falsy = False"
| "truthy (Name s) = (s \<noteq> [])"
| "truthy (Object m r) = True"
| "truthy (Other s) = True"

text \<open>
  After the destructuring of an object: the \<open>message\<close>, and what
  \<open>preferredTagName\<close> is from then on, by its string conversion and by whether it
  is \<open>!==\<close> the tag name (a value that is no string always is). The string
  conversion of a falsy value is never read: the turn has ended before.
\<close>

fun customMessage :: "preference \<Rightarrow> string option" where
  "customMessage (Object m r) = m"
| "customMessage v = None"

fun preferredText :: "preference \<Rightarrow> string" where
  "preferredText (Name s) = s"
| "preferredText (Other s) = s"
| "preferredText (Object m r) = replacementText r"
| "preferredText Falsy = ''false''"

fun differsFrom :: "preference \<Rightarrow> string \<Rightarrow> bool" where
  "differsFrom (Name s) tagName = (s \<noteq> tagName)"
| "differsFrom (Object m (Replacement s)) tagName = (s \<noteq> tagName)"
| "differsFrom v tagName = True"

definition blacklistedMessage :: "string \<Rightarrow> string" where
  "blacklistedMessage tagName =
     ''Blacklisted tag found ('' @ [CHR 0x60, CHR ''@''] @ tagName @ [CHR 0x60] @ '')''"

definition preferenceMessage :: "string \<Rightarrow> string \<Rightarrow> string" where
  "preferenceMessage tagName preferredTagName =
     ''Invalid JSDoc tag (preference). Replace '' @ [CHR 0x22] @ tagName @ [CHR 0x22] @
     '' JSDoc tag with '' @ [CHR 0x22] @ preferredTagName @ [CHR 0x22] @ ''.''"

definition invalidMessage :: "string \<Rightarrow> string" where
  "invalidMessage tagName =
     ''Invalid JSDoc tag name '' @ [CHR 0x22] @ tagName @ [CHR 0x22] @ ''.''"

text \<open>Lines 181 to 218: the tag against the names allowed and preferred.\<close>

definition checkPreference :: "params \<Rightarrow> jsdocTag \<Rightarrow> report list" where
  "checkPreference p jsdocTag =
     (let tagName = tag jsdocTag in
      if isValidTag (utilities p) tagName
           (definedTags (opts p) @ definedPreferredTags (config p) @
            definedNonPreferredTags (config p) @ definedStructuredTags (config p))
      then
        (case getPreferredTagName (utilities p) (blacklistedMessage tagName) tagName of
           (reported, preferredTagName) \<Rightarrow>
             if \<not> truthy preferredTagName then reported
             else
               (let msg =
                      (case customMessage preferredTagName of
                         None \<Rightarrow> preferenceMessage tagName (preferredText preferredTagName)
                       | Some m \<Rightarrow>
                           if m = [] then preferenceMessage tagName (preferredText preferredTagName)
                           else m)
                in if differsFrom preferredTagName tagName
                   then reported @
                     [\<lparr>message = msg,
                       fixer = ReplaceText
                         (replaceTagName (sourceText p) tagName (preferredText preferredTagName)),
                       reportedTag = jsdocTag\<rparr>]
                   else reported))
      else [\<lparr>message = invalidMessage tagName, fixer = NoFixer, reportedTag = jsdocTag\<rparr>])"

text \<open>One turn of the loop: the reports it makes, or the error it throws.\<close>

definition checkTag :: "params \<Rightarrow> nat \<Rightarrow> jsdocTag \<Rightarrow> error + report list" where
  "checkTag p tagIndex jsdocTag =
     (if jsxTags (opts p) \<and> tag jsdocTag \<in> jsxTagNames then Inr []
      else
        (case (if typed (opts p) then checkTagForTypedValidity p jsdocTag tagIndex
               else Inr (False, [])) of
           Inl e \<Rightarrow> Inl e
         | Inr (True, reported) \<Rightarrow> Inr reported
         | Inr (False, reported) \<Rightarrow> Inr (reported @ checkPreference p jsdocTag)))"

text \<open>
  The loop from \<open>tagIndex\<close> on: the reports made, and the error that ended the
  loop, if one did.
\<close>

fun iterateTags :: "params \<Rightarrow> nat \<Rightarrow> jsdocTag list \<Rightarrow> report list \<times> error option" where
  "iterateTags p tagIndex [] = ([], None)"
| "iterateTags p tagIndex (jsdocTag # rest) =
     (case checkTag p tagIndex jsdocTag of
        Inl e \<Rightarrow> ([], Some e)
      | Inr reported \<Rightarrow>
          (case iterateTags p (Suc tagIndex) rest of
             (later, e) \<Rightarrow> (reported @ later, e)))"

text \<open>The callback: the reports on the settings, the reports on tags, the error.\<close>

definition checkTagNames :: "params \<Rightarrow> string list \<times> report list \<times> error option" where
  "checkTagNames p =
     (case iterateTags p 0 (jsdoc p) of
        (reported, e) \<Rightarrow> (settingsReports (config p), reported, e))"

subsection \<open>Well-formed ancestries, and the ambient context in the spec's words\<close>

text \<open>
  In a syntax tree the chain of parents of every node leads to the root, a node of
  type \<open>Program\<close>. \<open>reachesProgram\<close> says so of a node (and is false of a
  missing one).
\<close>

fun reachesProgram :: "node option \<Rightarrow> bool" where
  "reachesProgram None = False"
| "reachesProgram (Some (Node ty decl par)) = (ty = ''Program'' \<or> reachesProgram par)"

text \<open>
  The spec's description of the ambient context: some node from the annotated one
  up to, but not including, the root is marked \<open>declare\<close>, or the root belongs
  to a file of type declarations only.
\<close>

fun declaredBelowProgram :: "node option \<Rightarrow> bool" where
  "declaredBelowProgram None = False"
| "declaredBelowProgram (Some (Node ty decl par)) =
     (ty \<noteq> ''Program'' \<and> (decl \<or> declaredBelowProgram par))"

definition ambientBySpec :: "string \<Rightarrow> node option \<Rightarrow> bool" where
  "ambientBySpec file n = (declaredBelowProgram n \<or> endsWith file ''.d.ts'')"

subsection \<open>The preferred tag name, from the spec\<close>

text \<open>
  Modelled from the spec: \<open>utils.getPreferredTagName\<close>, which is defined in
  \<open>iterateJsdoc.js\<close> and is not part of the source at hand. By the spec, a
  name that is no key of the preferred-name map is valid as it is; a key whose
  value is false or empty, or an object whose replacement is falsy, is
  blacklisted: the tag is reported, with the custom message of the object if it
  has one and the default message otherwise, with no fixer, and nothing is
  preferred in its place; any other value is the preference. The report is placed
  at the first tag of the comment with that name.
\<close>

fun blacklisted :: "preference \<Rightarrow> bool" where
  "blacklisted (Object m r) = (\<not> truthyReplacement r)"
| "blacklisted v = (\<not> truthy v)"

definition specGetPreferredTagName ::
  "(string \<times> preference) list \<Rightarrow> jsdocTag list \<Rightarrow> string \<Rightarrow> string \<Rightarrow>
     report list \<times> preference" where
  "specGetPreferredTagName preferences tags defaultMessage tagName =
     (case map_of preferences tagName of
        None \<Rightarrow> ([], Name tagName)
      | Some v \<Rightarrow>
          if blacklisted v
          then
            ((case find (\<lambda>t. tag t = tagName) tags of
                None \<Rightarrow> []
              | Some t \<Rightarrow>
                  [\<lparr>message =
                      (case customMessage v of
                         None \<Rightarrow> defaultMessage
                       | Some m \<Rightarrow> if m = [] then defaultMessage else m),
                    fixer = NoFixer, reportedTag = t\<rparr>]),
             Falsy)
          else ([], v))"

subsection \<open>Inputs for the examples\<close>

definition program :: node where
  "program = Node ''Program'' False None"

text \<open>\<open>class C {}\<close> at the top level of a file.\<close>

definition plainClass :: node where
  "plainClass = Node ''ClassDeclaration'' False (Some program)"

text \<open>\<open>declare class C {}\<close> at the top level of a file.\<close>

definition declareClass :: node where
  "declareClass = Node ''ClassDeclaration'' True (Some program)"

text \<open>A method of a class in a \<open>declare namespace\<close>.\<close>

definition nestedMethod :: node where
  "nestedMethod =
     Node ''MethodDefinition'' False
       (Some (Node ''ClassBody'' False
         (Some (Node ''ClassDeclaration'' False
           (Some (Node ''TSModuleBlock'' False
             (Some (Node ''TSModuleDeclaration'' True (Some program)))))))))"

text \<open>A node whose chain of parents ends before a root.\<close>

definition orphan :: node where
  "orphan = Node ''ClassDeclaration'' False None"

definition permissive :: utils where
  "permissive =
     \<lparr>isValidTag = (\<lambda>tagName tags. True),
      getPreferredTagName = (\<lambda>defaultMessage tagName. ([], Name tagName))\<rparr>"

definition exampleParams :: "string \<Rightarrow> node option \<Rightarrow> options \<Rightarrow> params" where
  "exampleParams file n os =
     \<lparr>sourceText = ''/** @arg foo */'', jsdoc = [], utilities = permissive,
      filename = file, opts = os, annotated = n,
      config = \<lparr>tagNamePreference = [], structuredTags = []\<rparr>\<rparr>"

definition typedOn :: options where
  "typedOn = \<lparr>definedTags = [], jsxTags = False, typed = True\<rparr>"

text \<open>\<open>let a;\<close> at the top level of a file.\<close>

definition plainVariable :: node where
  "plainVariable = Node ''VariableDeclaration'' False (Some program)"

text \<open>A method of a class, neither of them marked \<open>declare\<close>.\<close>

definition plainMethod :: node where
  "plainMethod =
     Node ''MethodDefinition'' False
       (Some (Node ''ClassBody'' False (Some plainClass)))"


text \<open>Options and helpers that turn every later check against the tag.\<close>

definition jsxAndTypedOn :: options where
  "jsxAndTypedOn = \<lparr>definedTags = [], jsxTags = True, typed = True\<rparr>"

definition hostile :: utils where
  "hostile =
     \<lparr>isValidTag = (\<lambda>tagName tags. False),
      getPreferredTagName = (\<lambda>defaultMessage tagName. ([], Falsy))\<rparr>"

text \<open>
  \<open>/** @private */ class C {}\<close> with the setting
  \<open>tagNamePreference: {private: false}\<close> and the option \<open>typed\<close>.
\<close>

definition privateTag :: jsdocTag where
  "privateTag = \<lparr>tag = ''private'', name = [], description = []\<rparr>"

definition privateForbidden :: "options \<Rightarrow> params" where
  "privateForbidden os =
     \<lparr>sourceText = ''/** @private */'', jsdoc = [privateTag],
      utilities =
        \<lparr>isValidTag = (\<lambda>tagName tags. tagName \<in> set tags),
         getPreferredTagName = specGetPreferredTagName [(''private'', Falsy)] [privateTag]\<rparr>,
      filename = ''index.ts'', opts = os, annotated = Some plainClass,
      config = \<lparr>tagNamePreference = [(''private'', Falsy)], structuredTags = []\<rparr>\<rparr>"

definition typedOff :: options where
  "typedOff = \<lparr>definedTags = [], jsxTags = False, typed = False\<rparr>"

text \<open>
  \<open>/** @arg foo */\<close> with a helper that prefers a given name to every tag name.
\<close>

definition preferring :: "string \<Rightarrow> params" where
  "preferring preferred =
     (exampleParams ''index.ts'' (Some plainClass) typedOff)
       \<lparr>utilities :=
          \<lparr>isValidTag = (\<lambda>tagName tags. True),
           getPreferredTagName = (\<lambda>defaultMessage tagName. ([], Name preferred))\<rparr>\<rparr>"

section \<open>Properties\<close>

subsection \<open>Auxiliary facts\<close>

lemma endsWith_dts_examples:
  "endsWith ''index.d.ts'' ''.d.ts''" "\<not> endsWith ''index.ts'' ''.d.ts''"
  by (simp_all add: endsWith_def)

lemma isInAmbientContext_reaches:
  "reachesProgram n \<Longrightarrow> isInAmbientContext fname n = Inr (ambientBySpec fname n)"
  by (induction fname n rule: isInAmbientContext.induct) (auto simp: ambientBySpec_def)

lemma isInAmbientContext_dts:
  "endsWith fname ''.d.ts'' \<Longrightarrow> reachesProgram n \<Longrightarrow> isInAmbientContext fname n = Inr True"
  by (simp add: isInAmbientContext_reaches ambientBySpec_def)

subsection \<open>The ambient-context walk\<close>

text \<open>
  C4, as amended. For every annotated node whose chain of parents leads to a root
  \<open>Program\<close> node, the walk returns a boolean, and it is the one the spec
  describes: true when a node below the root is marked \<open>declare\<close> or the file
  name ends with \<open>.d.ts\<close>, false otherwise.
\<close>

theorem ambient_walk_total_on_rooted_chains:
  "reachesProgram n \<Longrightarrow>
     isInAmbientContext fname n = Inr (declaredBelowProgram n \<or> endsWith fname ''.d.ts'')"
  using isInAmbientContext_reaches [of n fname] by (simp add: ambientBySpec_def)

theorem ambient_walk_total_on_rooted_chains_witness:
  "reachesProgram (Some nestedMethod) \<and>
   isInAmbientContext ''index.ts'' (Some nestedMethod) = Inr True \<and>
   reachesProgram (Some plainClass) \<and>
   isInAmbientContext ''index.ts'' (Some plainClass) = Inr False"
  using ambient_walk_total_on_rooted_chains [of "Some nestedMethod" "''index.ts''"]
    ambient_walk_total_on_rooted_chains [of "Some plainClass" "''index.ts''"]
  by (simp add: nestedMethod_def plainClass_def program_def endsWith_def)

text \<open>
  C4, as stated, fails: a node without a \<open>declare\<close> marker and without a parent
  is not classified as non-ambient; the walk goes on to the missing parent and the
  read of its \<open>type\<close> throws.
\<close>

theorem ambient_walk_orphan_counterexample:
  "isInAmbientContext ''index.ts'' (Some orphan) = Inl TypeError"
  by (simp add: orphan_def)

subsection \<open>Facts about the fixed sets and the typed check\<close>

lemma default_in_sets:
  "''default'' \<in> typedTagsUnnecessaryOutsideDeclare"
  "''default'' \<notin> typedTagsAlwaysUnnecessary"
  by (simp_all add: typedTagsUnnecessaryOutsideDeclare_def typedTagsAlwaysUnnecessary_def)


lemma always_not_jsx: "t \<in> typedTagsAlwaysUnnecessary \<Longrightarrow> t \<notin> jsxTagNames"
  by (auto simp: typedTagsAlwaysUnnecessary_def jsxTagNames_def)

lemma parent_Program_dts:
  "endsWith fname ''.d.ts'' \<Longrightarrow> parent n = Some q \<Longrightarrow> ntype q = ''Program'' \<Longrightarrow>
     isInAmbientContext fname (Some n) = Inr True"
  by (cases n; cases q) simp

text \<open>
  For an annotated node that has a parent, the answer of
  \<open>tagIsRedundantWhenTyped\<close> is that of the walk: the test of the parent's type in
  files named \<open>.d.ts\<close> decides nothing that the walk would not.
\<close>

lemma tagIsRedundantWhenTyped_by_walk:
  assumes "annotated p = Some n" and "parent n = Some q"
    and "isInAmbientContext (filename p) (Some n) = Inr b"
  shows "tagIsRedundantWhenTyped p jsdocTag =
    Inr (tag jsdocTag \<in> typedTagsUnnecessaryOutsideDeclare \<and> name jsdocTag \<noteq> ''default'' \<and> \<not> b)"
proof (cases "endsWith (filename p) ''.d.ts'' \<and> ntype q = ''Program''")
  case True
  with assms have "b" using parent_Program_dts [of "filename p" n q] by simp
  with True assms show ?thesis
    by (simp add: tagIsRedundantWhenTyped_def parentIsProgram_def)
next
  case False
  with assms show ?thesis
    by (cases b) (auto simp: tagIsRedundantWhenTyped_def parentIsProgram_def)
qed

lemma tagIsRedundantWhenTyped_utilities:
  "tagIsRedundantWhenTyped (p\<lparr>utilities := u\<rparr>) jsdocTag = tagIsRedundantWhenTyped p jsdocTag"
  by (simp add: tagIsRedundantWhenTyped_def split: sum.splits bool.splits)

lemma checkTagForTypedValidity_utilities:
  "checkTagForTypedValidity (p\<lparr>utilities := u\<rparr>) jsdocTag tagIndex =
   checkTagForTypedValidity p jsdocTag tagIndex"
  unfolding checkTagForTypedValidity_def tagIsRedundantWhenTyped_utilities by (rule refl)


subsection \<open>Files of type declarations\<close>

text \<open>
  C10. In a file whose name ends with \<open>.d.ts\<close>, for every annotated node of the
  syntax tree the walk returns true, and for every such node that has a parent
  (every declaration, at the top level or nested) the rule for tags redundant
  outside of ambient contexts answers false whatever the tag is, so it makes no
  report. The answer is reached whether or not the parent is the root
  \<open>Program\<close>: the test of the parent's type is never what decides.
\<close>

theorem declaration_file_is_ambient:
  assumes "endsWith (filename p) ''.d.ts''"
    and "annotated p = Some n"
    and "reachesProgram (Some n)"
  shows "isInAmbientContext (filename p) (annotated p) = Inr True \<and>
    (parent n \<noteq> None \<longrightarrow> tagIsRedundantWhenTyped p jsdocTag = Inr False)"
proof -
  have walk: "isInAmbientContext (filename p) (Some n) = Inr True"
    using assms(1) assms(3) by (rule isInAmbientContext_dts)
  have "tagIsRedundantWhenTyped p jsdocTag = Inr False" if "parent n = Some q" for q
    using tagIsRedundantWhenTyped_by_walk [OF assms(2) that walk] by simp
  with walk assms(2) show ?thesis by auto
qed

theorem declaration_file_is_ambient_witness:
  "endsWith ''index.d.ts'' ''.d.ts'' \<and> reachesProgram (Some plainMethod) \<and>
   parent plainMethod \<noteq> None \<and>
   isInAmbientContext ''index.d.ts'' (Some plainMethod) = Inr True \<and>
   tagIsRedundantWhenTyped (exampleParams ''index.d.ts'' (Some plainMethod) typedOn)
     \<lparr>tag = ''abstract'', name = [], description = []\<rparr> = Inr False"
  using declaration_file_is_ambient
    [of "exampleParams ''index.d.ts'' (Some plainMethod) typedOn" plainMethod
        "\<lparr>tag = ''abstract'', name = [], description = []\<rparr>"]
  by (simp add: exampleParams_def plainMethod_def plainClass_def program_def endsWith_def)

subsection \<open>The texts of the messages\<close>

lemma typed_message_texts:
  "alwaysMessage ''typedef'' =
     [CHR 0x27] @ ''@typedef'' @ [CHR 0x27] @ '' is redundant when using a type system.''"
  "ambientMessage ''abstract'' =
     [CHR 0x27] @ ''@abstract'' @ [CHR 0x27] @ '' is redundant outside of ambient ('' @
     [CHR 0x60] @ ''declare'' @ [CHR 0x60] @ ''/'' @ [CHR 0x60] @ ''.d.ts'' @ [CHR 0x60] @
     '') contexts when using a type system.''"
  "templateMessage =
     [CHR 0x27] @ ''@template'' @ [CHR 0x27] @
     '' without a name is redundant when using a type system.''"
  by (simp_all add: alwaysMessage_def ambientMessage_def templateMessage_def)

lemma policy_message_texts:
  "blacklistedMessage ''private'' =
     ''Blacklisted tag found ('' @ [CHR 0x60] @ ''@private'' @ [CHR 0x60] @ '')''"
  "preferenceMessage ''arg'' ''param'' =
     ''Invalid JSDoc tag (preference). Replace '' @ [CHR 0x22] @ ''arg'' @ [CHR 0x22] @
     '' JSDoc tag with '' @ [CHR 0x22] @ ''param'' @ [CHR 0x22] @ ''.''"
  "invalidMessage ''foo'' =
     ''Invalid JSDoc tag name '' @ [CHR 0x22] @ ''foo'' @ [CHR 0x22] @ ''.''"
  by (simp_all add: blacklistedMessage_def preferenceMessage_def invalidMessage_def)

subsection \<open>The tag \<open>default\<close>\<close>

text \<open>
  C1: the code at a tag named \<open>default\<close>. On \<open>/** @default 0 */ let a;\<close> in a
  file \<open>index.ts\<close>, in typed mode, the tag name is \<open>default\<close>, the name-path
  is empty, and the typed check reports the tag as redundant outside of ambient
  contexts, with the fix that empties its type: the test of line 117 compares the
  name-path, not the tag name, with \<open>default\<close>, and does not hold.
\<close>

theorem default_tag_reported_in_plain_context:
  "tagIsRedundantWhenTyped (exampleParams ''index.ts'' (Some plainVariable) typedOn)
     \<lparr>tag = ''default'', name = [], description = ''0''\<rparr> = Inr True \<and>
   checkTag (exampleParams ''index.ts'' (Some plainVariable) typedOn) 0
     \<lparr>tag = ''default'', name = [], description = ''0''\<rparr> =
   Inr [\<lparr>message =
           [CHR 0x27] @ ''@default'' @ [CHR 0x27] @ '' is redundant outside of ambient ('' @
           [CHR 0x60] @ ''declare'' @ [CHR 0x60] @ ''/'' @ [CHR 0x60] @ ''.d.ts'' @
           [CHR 0x60] @ '') contexts when using a type system.'',
         fixer = ChangeTag \<lparr>tag = ''default'', name = [], description = ''0''\<rparr>
           \<lparr>set_postType = Some [], set_type = Some [], set_postTag = None, set_tag = None\<rparr>,
         reportedTag = \<lparr>tag = ''default'', name = [], description = ''0''\<rparr>\<rparr>]"
  by (simp add: checkTag_def checkTagForTypedValidity_def tagIsRedundantWhenTyped_def
      default_in_sets jsxTagNames_def ambientMessage_def
      exampleParams_def typedOn_def plainVariable_def program_def endsWith_def
      reportWithTypeRemovalFixer_def trim_def isWhiteSpace_def spread_def)

subsection \<open>Tags redundant outside of ambient contexts\<close>




subsection \<open>Tags always redundant\<close>

text \<open>
  C6. For every tag whose name is in the set of tags always redundant, in typed
  mode, one turn of the loop makes exactly one report, whose message is
  \<open>'@\<close>, the tag name and \<open>' is redundant when using a type system.\<close>,
  whatever the file name, the annotated node and its ancestors are (the JSX
  exemption cannot apply: no such name is a JSX name). Its fix removes the tag
  when the description is empty after trimming, and otherwise empties the type,
  the tag name and the space after each.
\<close>

theorem always_redundant_reported:
  assumes "typed (opts p)" and "tag jsdocTag \<in> typedTagsAlwaysUnnecessary"
  shows "checkTag p tagIndex jsdocTag =
    Inr [\<lparr>message =
            [CHR 0x27, CHR ''@''] @ tag jsdocTag @ [CHR 0x27] @
            '' is redundant when using a type system.'',
          fixer =
            (if trim (description jsdocTag) = [] then RemoveTag tagIndex True
             else ChangeTag jsdocTag
               \<lparr>set_postType = Some [], set_type = Some [],
                set_postTag = Some [], set_tag = Some []\<rparr>),
          reportedTag = jsdocTag\<rparr>]"
  using assms always_not_jsx [of "tag jsdocTag"]
  by (simp add: checkTag_def checkTagForTypedValidity_def reportWithTypeRemovalFixer_def
      alwaysMessage_def spread_def)

theorem always_redundant_reported_witness:
  "typed typedOn \<and> ''typedef'' \<in> typedTagsAlwaysUnnecessary \<and>
   checkTag (exampleParams ''index.d.ts'' (Some declareClass) typedOn) 0
     \<lparr>tag = ''typedef'', name = [], description = []\<rparr> =
   Inr [\<lparr>message =
           [CHR 0x27] @ ''@typedef'' @ [CHR 0x27] @
           '' is redundant when using a type system.'',
         fixer = RemoveTag 0 True,
         reportedTag = \<lparr>tag = ''typedef'', name = [], description = []\<rparr>\<rparr>] \<and>
   checkTag (exampleParams ''index.ts'' (Some plainMethod) typedOn) 0
     \<lparr>tag = ''typedef'', name = [], description = []\<rparr> =
   Inr [\<lparr>message =
           [CHR 0x27] @ ''@typedef'' @ [CHR 0x27] @
           '' is redundant when using a type system.'',
         fixer = RemoveTag 0 True,
         reportedTag = \<lparr>tag = ''typedef'', name = [], description = []\<rparr>\<rparr>] \<and>
   checkTag (exampleParams ''index.ts'' None typedOn) 0
     \<lparr>tag = ''typedef'', name = [], description = []\<rparr> =
   Inr [\<lparr>message =
           [CHR 0x27] @ ''@typedef'' @ [CHR 0x27] @
           '' is redundant when using a type system.'',
         fixer = RemoveTag 0 True,
         reportedTag = \<lparr>tag = ''typedef'', name = [], description = []\<rparr>\<rparr>]"
  using always_redundant_reported
    [of "exampleParams ''index.d.ts'' (Some declareClass) typedOn"
        "\<lparr>tag = ''typedef'', name = [], description = []\<rparr>" 0]
    always_redundant_reported
    [of "exampleParams ''index.ts'' (Some plainMethod) typedOn"
        "\<lparr>tag = ''typedef'', name = [], description = []\<rparr>" 0]
    always_redundant_reported
    [of "exampleParams ''index.ts'' None typedOn"
        "\<lparr>tag = ''typedef'', name = [], description = []\<rparr>" 0]
  by (simp add: exampleParams_def typedOn_def typedTagsAlwaysUnnecessary_def trim_def)

subsection \<open>The order of the checks\<close>

text \<open>
  C9. For every tag that the typed check judges redundant, in typed mode, the
  typed check has made exactly one report, and the turn of the loop makes that
  report and nothing else whatever \<open>isValidTag\<close> and \<open>getPreferredTagName\<close>
  are (they are not consulted); when the JSX exemption holds the turn makes no
  report at all.
\<close>

theorem typed_redundancy_ends_the_turn:
  assumes "typed (opts p)"
    and "checkTagForTypedValidity p jsdocTag tagIndex = Inr (True, reported)"
  shows "(\<exists>r. reported = [r]) \<and>
    checkTag (p\<lparr>utilities := u\<rparr>) tagIndex jsdocTag =
      (if jsxTags (opts p) \<and> tag jsdocTag \<in> jsxTagNames then Inr [] else Inr reported)"
proof -
  have one: "\<exists>r. reported = [r]"
    using assms(2)
    by (auto simp: checkTagForTypedValidity_def split: if_splits sum.splits bool.splits)
  have "checkTag (p\<lparr>utilities := u\<rparr>) tagIndex jsdocTag =
      (if jsxTags (opts p) \<and> tag jsdocTag \<in> jsxTagNames then Inr [] else Inr reported)"
    using assms by (simp add: checkTag_def checkTagForTypedValidity_utilities)
  with one show ?thesis by simp
qed

theorem typed_redundancy_ends_the_turn_witness:
  "typed typedOn \<and>
   checkTagForTypedValidity (exampleParams ''index.ts'' (Some plainClass) typedOn)
     \<lparr>tag = ''abstract'', name = [], description = []\<rparr> 0 =
   Inr (True,
     [\<lparr>message = ambientMessage ''abstract'', fixer = RemoveTag 0 True,
       reportedTag = \<lparr>tag = ''abstract'', name = [], description = []\<rparr>\<rparr>]) \<and>
   checkTag ((exampleParams ''index.ts'' (Some plainClass) typedOn)\<lparr>utilities := hostile\<rparr>) 0
     \<lparr>tag = ''abstract'', name = [], description = []\<rparr> =
   Inr [\<lparr>message = ambientMessage ''abstract'', fixer = RemoveTag 0 True,
         reportedTag = \<lparr>tag = ''abstract'', name = [], description = []\<rparr>\<rparr>]"
proof -
  have typed_check:
    "checkTagForTypedValidity (exampleParams ''index.ts'' (Some plainClass) typedOn)
       \<lparr>tag = ''abstract'', name = [], description = []\<rparr> 0 =
     Inr (True,
       [\<lparr>message = ambientMessage ''abstract'', fixer = RemoveTag 0 True,
         reportedTag = \<lparr>tag = ''abstract'', name = [], description = []\<rparr>\<rparr>])"
    by (simp add: checkTagForTypedValidity_def tagIsRedundantWhenTyped_def
        typedTagsUnnecessaryOutsideDeclare_def typedTagsAlwaysUnnecessary_def
        exampleParams_def plainClass_def program_def endsWith_def
        reportWithTypeRemovalFixer_def trim_def)
  have on: "typed (opts (exampleParams ''index.ts'' (Some plainClass) typedOn))"
    by (simp add: exampleParams_def typedOn_def)
  show ?thesis
    using typed_redundancy_ends_the_turn [OF on typed_check, of hostile] typed_check
    by (simp add: exampleParams_def typedOn_def)
qed

subsection \<open>The JSX exemption\<close>

text \<open>
  C5. For every tag whose name is one of \<open>jsx\<close>, \<open>jsxFrag\<close>,
  \<open>jsxImportSource\<close> and \<open>jsxRuntime\<close>, when the option \<open>jsxTags\<close> is on,
  the turn of the loop makes no report, whatever typed mode, the defined tags, the
  settings and the functions of \<open>utils\<close> are.
\<close>

theorem jsx_exemption_dominates:
  assumes "jsxTags (opts p)" and "tag jsdocTag \<in> jsxTagNames"
  shows "checkTag p tagIndex jsdocTag = Inr []"
  using assms by (simp add: checkTag_def)

theorem jsx_exemption_dominates_witness:
  "jsxTags jsxAndTypedOn \<and> ''jsx'' \<in> jsxTagNames \<and>
   checkTag
     ((exampleParams ''index.ts'' (Some plainClass) jsxAndTypedOn)
        \<lparr>utilities := hostile,
         config := \<lparr>tagNamePreference = [(''jsx'', Falsy)], structuredTags = []\<rparr>\<rparr>) 0
     \<lparr>tag = ''jsx'', name = ''h'', description = []\<rparr> = Inr []"
  using jsx_exemption_dominates
    [of "(exampleParams ''index.ts'' (Some plainClass) jsxAndTypedOn)
        \<lparr>utilities := hostile,
         config := \<lparr>tagNamePreference = [(''jsx'', Falsy)], structuredTags = []\<rparr>\<rparr>"
        "\<lparr>tag = ''jsx'', name = ''h'', description = []\<rparr>" 0]
  by (simp add: exampleParams_def jsxAndTypedOn_def jsxTagNames_def)

subsection \<open>The fix of a tag redundant in typed mode\<close>

text \<open>
  C3, as amended. For every tag that the typed check reports: if its description
  is empty after trimming, the fix removes the tag at its index, with the request
  to remove the block when it becomes empty; if the description is not empty, the
  fix changes the tag by emptying its type and the space after the type, and also
  its tag name and the space after the tag name when the tag is one of those
  always redundant, and names no other part of the tag, so the description stays
  as it is.
\<close>

theorem type_removal_fix:
  assumes "checkTagForTypedValidity p jsdocTag tagIndex = Inr (True, reported)"
  shows "\<exists>msg. reported =
    [\<lparr>message = msg,
      fixer =
        (if trim (description jsdocTag) = [] then RemoveTag tagIndex True
         else ChangeTag jsdocTag
           \<lparr>set_postType = Some [], set_type = Some [],
            set_postTag =
              (if tag jsdocTag \<in> typedTagsAlwaysUnnecessary then Some [] else None),
            set_tag =
              (if tag jsdocTag \<in> typedTagsAlwaysUnnecessary then Some [] else None)\<rparr>),
      reportedTag = jsdocTag\<rparr>]"
  using assms
  by (auto simp: checkTagForTypedValidity_def reportWithTypeRemovalFixer_def spread_def
      split: if_splits sum.splits bool.splits)

theorem type_removal_fix_witness:
  "checkTagForTypedValidity (exampleParams ''index.ts'' (Some plainClass) typedOn)
     \<lparr>tag = ''typedef'', name = ''Shape'', description = ''A shape.''\<rparr> 2 =
   Inr (True,
     [\<lparr>message = alwaysMessage ''typedef'',
       fixer = ChangeTag \<lparr>tag = ''typedef'', name = ''Shape'', description = ''A shape.''\<rparr>
         \<lparr>set_postType = Some [], set_type = Some [],
          set_postTag = Some [], set_tag = Some []\<rparr>,
       reportedTag = \<lparr>tag = ''typedef'', name = ''Shape'', description = ''A shape.''\<rparr>\<rparr>])"
proof -
  obtain reported where r:
    "checkTagForTypedValidity (exampleParams ''index.ts'' (Some plainClass) typedOn)
       \<lparr>tag = ''typedef'', name = ''Shape'', description = ''A shape.''\<rparr> 2 =
     Inr (True, reported)"
    by (simp add: checkTagForTypedValidity_def typedTagsAlwaysUnnecessary_def)
  have msg: "message (hd reported) = alwaysMessage ''typedef''"
    using r
    by (auto simp: checkTagForTypedValidity_def typedTagsAlwaysUnnecessary_def
        reportWithTypeRemovalFixer_def)
  from type_removal_fix [OF r] msg r show ?thesis
    by (auto simp: typedTagsAlwaysUnnecessary_def trim_def isWhiteSpace_def)
qed

text \<open>
  C3, as stated, fails: on \<open>/** @abstract Base of all shapes. */ class C {}\<close>,
  a tag redundant outside of ambient contexts with a description, the fix empties
  the type and the space after it and leaves the tag name in place.
\<close>

theorem type_removal_fix_counterexample:
  "checkTagForTypedValidity (exampleParams ''index.ts'' (Some plainClass) typedOn)
     \<lparr>tag = ''abstract'', name = ''Base'', description = ''of all shapes.''\<rparr> 0 =
   Inr (True,
     [\<lparr>message = ambientMessage ''abstract'',
       fixer = ChangeTag
         \<lparr>tag = ''abstract'', name = ''Base'', description = ''of all shapes.''\<rparr>
         \<lparr>set_postType = Some [], set_type = Some [], set_postTag = None, set_tag = None\<rparr>,
       reportedTag =
         \<lparr>tag = ''abstract'', name = ''Base'', description = ''of all shapes.''\<rparr>\<rparr>])"
  by (simp add: checkTagForTypedValidity_def tagIsRedundantWhenTyped_def
      typedTagsUnnecessaryOutsideDeclare_def typedTagsAlwaysUnnecessary_def
      exampleParams_def plainClass_def program_def endsWith_def
      reportWithTypeRemovalFixer_def trim_def isWhiteSpace_def spread_def)

subsection \<open>Blacklisted tags\<close>

lemma find_tag:
  "t \<in> set tags \<Longrightarrow> \<exists>t'. find (\<lambda>x. tag x = tag t) tags = Some t' \<and> tag t' = tag t"
  by (induction tags) auto

text \<open>
  C2, as amended. With \<open>getPreferredTagName\<close> as the spec describes it: for
  every tag of the comment whose entry in the preferred-name map is falsy, or is
  an object whose replacement is falsy, when the JSX exemption does not apply and
  typed mode is off or the typed check does not judge the tag redundant, the turn
  of the loop makes exactly one report, for a tag of that name, and the report
  carries no fixer.
\<close>

theorem blacklisted_tag_reported_without_fixer:
  assumes "map_of (tagNamePreference (config p)) (tag jsdocTag) = Some v"
    and "blacklisted v"
    and "getPreferredTagName (utilities p) =
           specGetPreferredTagName (tagNamePreference (config p)) (jsdoc p)"
    and "jsdocTag \<in> set (jsdoc p)"
    and "\<not> (jsxTags (opts p) \<and> tag jsdocTag \<in> jsxTagNames)"
    and "typed (opts p) \<longrightarrow> checkTagForTypedValidity p jsdocTag tagIndex = Inr (False, [])"
  shows "\<exists>r. checkTag p tagIndex jsdocTag = Inr [r] \<and> fixer r = NoFixer \<and>
    tag (reportedTag r) = tag jsdocTag"
proof -
  obtain t' where t': "find (\<lambda>x. tag x = tag jsdocTag) (jsdoc p) = Some t'"
    "tag t' = tag jsdocTag"
    using find_tag [OF assms(4)] by blast
  have turn: "checkTag p tagIndex jsdocTag = Inr (checkPreference p jsdocTag)"
    using assms(5) assms(6) by (cases "typed (opts p)") (auto simp: checkTag_def)
  have "\<exists>r. checkPreference p jsdocTag = [r] \<and> fixer r = NoFixer \<and>
    tag (reportedTag r) = tag jsdocTag"
    using assms(1) assms(2) assms(3) t'
    by (simp add: checkPreference_def specGetPreferredTagName_def Let_def)
  with turn show ?thesis by simp
qed

theorem blacklisted_tag_reported_without_fixer_witness:
  "checkTag (privateForbidden typedOff) 0 privateTag =
   Inr [\<lparr>message = blacklistedMessage ''private'', fixer = NoFixer,
         reportedTag = privateTag\<rparr>]"
proof -
  have "\<exists>r. checkTag (privateForbidden typedOff) 0 privateTag = Inr [r] \<and>
    fixer r = NoFixer \<and> tag (reportedTag r) = tag privateTag"
    by (rule blacklisted_tag_reported_without_fixer [where v = Falsy])
      (simp_all add: privateForbidden_def privateTag_def typedOff_def)
  then show ?thesis
    by (simp add: checkTag_def checkPreference_def specGetPreferredTagName_def
        privateForbidden_def privateTag_def typedOff_def definedPreferredTags_def
        definedNonPreferredTags_def definedStructuredTags_def Let_def)
qed

text \<open>
  C2, as stated, fails: with \<open>tagNamePreference: {private: false}\<close> and the
  option \<open>typed\<close>, the tag of \<open>/** @private */\<close> is reported as redundant in
  typed mode, and that report carries a fixer, which removes the tag.
\<close>

theorem blacklisted_tag_typed_counterexample:
  "map_of (tagNamePreference (config (privateForbidden typedOn))) (tag privateTag) = Some Falsy \<and>
   checkTag (privateForbidden typedOn) 0 privateTag =
   Inr [\<lparr>message = alwaysMessage ''private'', fixer = RemoveTag 0 True,
         reportedTag = privateTag\<rparr>]"
  by (simp add: checkTag_def checkTagForTypedValidity_def typedTagsAlwaysUnnecessary_def
      jsxTagNames_def privateForbidden_def privateTag_def typedOn_def
      reportWithTypeRemovalFixer_def trim_def)

subsection \<open>The fix of a non-preferred tag name\<close>

text \<open>
  What the replacement does when the preferred name has no dollar sign: the
  leftmost \<open>@tagName\<close> followed by a word boundary gives way to
  \<open>@preferredTagName\<close>, and the text before and after it stays as it is; a
  text without such a match is returned unchanged.
\<close>

lemma getSubstitution_literal:
  "CHR ''$'' \<notin> set s \<Longrightarrow> getSubstitution matched preceding following s = s"
  by (induction matched preceding following s rule: getSubstitution.induct) auto

lemma matchesAt_text:
  "matchesAt tagName s \<Longrightarrow> s = CHR ''@'' # tagName @ drop (Suc (length tagName)) s"
  by (simp add: matchesAt_def Let_def) (metis append_take_drop_id append_Cons)

lemma firstMatch_split:
  "firstMatch tagName pre s = Some (a, b) \<Longrightarrow>
     \<exists>mid. a = pre @ mid \<and> s = mid @ CHR ''@'' # tagName @ b \<and>
       matchesAt tagName (CHR ''@'' # tagName @ b) \<and>
       (\<forall>k<length mid. \<not> matchesAt tagName (drop k s))"
proof (induction s arbitrary: pre)
  case Nil
  then show ?case by simp
next
  case (Cons c cs)
  show ?case
  proof (cases "matchesAt tagName (c # cs)")
    case True
    with Cons.prems have ab: "a = pre" "b = drop (length tagName) cs" by simp_all
    from matchesAt_text [OF True] have "c # cs = CHR ''@'' # tagName @ b"
      using ab by simp
    with True ab show ?thesis by (intro exI [of _ "[]"]) simp
  next
    case False
    with Cons.prems have "firstMatch tagName (pre @ [c]) cs = Some (a, b)" by simp
    from Cons.IH [OF this] obtain mid where mid:
      "a = (pre @ [c]) @ mid" "cs = mid @ CHR ''@'' # tagName @ b"
      "matchesAt tagName (CHR ''@'' # tagName @ b)"
      "\<forall>k<length mid. \<not> matchesAt tagName (drop k cs)"
      by blast
    have "\<forall>k<length (c # mid). \<not> matchesAt tagName (drop k (c # cs))"
    proof (intro allI impI)
      fix k assume "k < length (c # mid)"
      then show "\<not> matchesAt tagName (drop k (c # cs))"
        using False mid(4) by (cases k) auto
    qed
    with mid show ?thesis by (intro exI [of _ "c # mid"]) simp
  qed
qed

lemma firstMatch_none:
  "firstMatch tagName pre s = None \<Longrightarrow> \<forall>k. \<not> matchesAt tagName (drop k s)"
proof (induction s arbitrary: pre)
  case Nil
  then show ?case by (simp add: matchesAt_def)
next
  case (Cons c cs)
  then have no: "\<not> matchesAt tagName (c # cs)"
    and "firstMatch tagName (pre @ [c]) cs = None"
    by (simp_all split: if_splits)
  from Cons.IH [OF this(2)] have rest: "\<forall>k. \<not> matchesAt tagName (drop k cs)" .
  show ?case
  proof
    fix k show "\<not> matchesAt tagName (drop k (c # cs))"
      using no rest by (cases k) auto
  qed
qed

lemma replaceTagName_literal:
  assumes "CHR ''$'' \<notin> set preferredTagName"
  shows "replaceTagName text tagName preferredTagName =
     (case firstMatch tagName [] text of
        None \<Rightarrow> text
      | Some (a, b) \<Rightarrow> a @ CHR ''@'' # preferredTagName @ b)"
  using assms by (simp add: replaceTagName_def getSubstitution_literal split: option.splits)

lemma replaceTagName_param:
  "replaceTagName ''/** @argument x @arg foo @arg */'' ''arg'' ''param'' =
     ''/** @argument x @param foo @arg */''"
  by (simp add: replaceTagName_def matchesAt_def isWordChar_def)

text \<open>
  C8: the code at a preferred name with a dollar sign. On \<open>/** @arg foo */\<close>
  with \<open>par$$am\<close> preferred to \<open>arg\<close>, the message names \<open>par$$am\<close> as the
  replacement, and the fix writes \<open>@par$am\<close>: \<open>String.prototype.replace\<close> reads
  \<open>$$\<close> in the replacement as a pattern.
\<close>

theorem rename_fix_expands_dollar_patterns:
  "checkTag (preferring ''par$$am'') 0 \<lparr>tag = ''arg'', name = ''foo'', description = []\<rparr> =
   Inr [\<lparr>message = preferenceMessage ''arg'' ''par$$am'',
         fixer = ReplaceText ''/** @par$am foo */'',
         reportedTag = \<lparr>tag = ''arg'', name = ''foo'', description = []\<rparr>\<rparr>]"
  by (simp add: checkTag_def checkPreference_def preferring_def exampleParams_def typedOff_def
      replaceTagName_def matchesAt_def isWordChar_def Let_def)

end
